theory Spec2Isabelle
  imports Main
begin

section \<open>Values of the listener (src/listener.go)\<close>

text \<open>
  Go's \<open>error\<close> values. The three package-level sentinels of lines 12-19 are distinct
  values compared by identity; every \<open>errors.New\<close> and \<open>fmt.Errorf\<close> made inside a
  function is an \<open>ErrorString\<close> carrying its message. A nil error is \<open>None\<close> of
  \<open>error option\<close>.
\<close>

datatype error =
    ErrTopicRequired
  | ErrHandlerRequired
  | ErrChannelRequired
  | ErrorString string

fun Error :: "error \<Rightarrow> string" where
  "Error ErrTopicRequired = ''topic is mandatory''"
| "Error ErrHandlerRequired = ''handler is mandatory''"
| "Error ErrChannelRequired = ''channel is mandatory''"
| "Error (ErrorString msg) = msg"

text \<open>
  A call of \<open>On\<close> or of the dispatch callback either returns its \<open>error\<close> (nil or not)
  or panics: indexing an empty slice and calling a nil function value are run-time
  panics in Go.
\<close>

datatype outcome = Returns "error option" | Panics

text \<open>
  The part of \<open>http.Response\<close> the listener reads: the numeric status, the status
  text and the body. The deferred \<open>resp.Body.Close()\<close> yields nothing the functions
  read and is left out.
\<close>

record Response =
  StatusCode :: int
  Status :: string
  Response_Body :: string

definition StatusOK :: int where
  "StatusOK = 200"

definition StatusNotFound :: int where
  "StatusNotFound = 404"

text \<open>The anonymous struct of lines 130-133, one element of the \<open>/nodes\<close> answer.\<close>

record node =
  Address :: string
  TCPPort :: int

text \<open>
  The transport's message and the bus message that embeds it. The type \<open>Message\<close> is
  declared outside listener.go; the model keeps the embedded transport message and the
  \<open>ReplyTo\<close> field, which are the parts listener.go touches.
\<close>

record nsq_Message =
  Body :: string

record Message =
  nsq_Message :: nsq_Message
  ReplyTo :: string

text \<open>
  \<open>HandlerFunc\<close> (line 22) receives a pointer to the message, so it may change the
  message as well as the outside world \<open>'w\<close>; it answers with a result \<open>'r\<close> or an
  error. A nil \<open>HandlerFunc\<close> is \<open>None\<close>.
\<close>

type_synonym ('w, 'r) HandlerFunc = "Message \<Rightarrow> 'w \<Rightarrow> ((error + 'r) \<times> Message) \<times> 'w"

record ('w, 'r) ListenerConfig =
  Topic :: string
  Channel :: string
  HandlerFunc :: "('w, 'r) HandlerFunc option"
  Lookup :: "string list"
  HandlerConcurrency :: int
  AutoCreateTopic :: bool

section \<open>Calls that leave the listener\<close>

text \<open>
  Every call listener.go makes to a collaborator is appended to a log, in order, next
  to the state \<open>'w\<close> of the outside world that the collaborators read and change.
\<close>

datatype 'r call =
    HttpGet string
  | HttpPost string string
  | CallHandler Message
  | CallNewEmitter
  | CallEmit string 'r
  | CallNewConsumer string string
  | CallAddConcurrentHandlers int
  | CallConnectToNSQLookupds "string list"

fun is_transport_call :: "'r call \<Rightarrow> bool" where
  "is_transport_call (CallNewConsumer _ _) = True"
| "is_transport_call (CallAddConcurrentHandlers _) = True"
| "is_transport_call (CallConnectToNSQLookupds _) = True"
| "is_transport_call _ = False"

fun is_publish_call :: "'r call \<Rightarrow> bool" where
  "is_publish_call (CallEmit _ _) = True"
| "is_publish_call _ = False"

record ('w, 'r) state =
  calls :: "'r call list"
  world :: 'w

type_synonym ('w, 'r) callback = "nsq_Message \<Rightarrow> ('w, 'r) state \<Rightarrow> outcome \<times> ('w, 'r) state"

text \<open>
  The collaborators, none of them defined in listener.go: \<open>net/http\<close>,
  \<open>encoding/json\<close>, the go-nsq consumer, and the bus's own \<open>NewEmitter\<close>, \<open>Emit\<close> and
  \<open>newListenerConfig\<close>. They are parameters of the model. \<open>'em\<close> is the emitter,
  \<open>'cf\<close> the transport configuration, \<open>'co\<close> the consumer.
\<close>

record ('w, 'r, 'em, 'cf, 'co) env =
  http_Get :: "string \<Rightarrow> 'w \<Rightarrow> (error + Response) \<times> 'w"
  http_Post :: "string \<Rightarrow> string \<Rightarrow> 'w \<Rightarrow> (error + Response) \<times> 'w"
  json_Unmarshal :: "string \<Rightarrow> Message \<Rightarrow> error + Message"
  json_Decode_nodes :: "string \<Rightarrow> error + node list"
  NewEmitter :: "'w \<Rightarrow> (error + 'em) \<times> 'w"
  Emit :: "'em \<Rightarrow> string \<Rightarrow> 'r \<Rightarrow> 'w \<Rightarrow> error option \<times> 'w"
  newListenerConfig :: "('w, 'r) ListenerConfig \<Rightarrow> 'cf"
  nsq_NewConsumer :: "string \<Rightarrow> string \<Rightarrow> 'cf \<Rightarrow> 'w \<Rightarrow> (error + 'co) \<times> 'w"
  AddConcurrentHandlers :: "'co \<Rightarrow> ('w, 'r) callback \<Rightarrow> int \<Rightarrow> 'w \<Rightarrow> 'w"
  ConnectToNSQLookupds :: "'co \<Rightarrow> string list \<Rightarrow> 'w \<Rightarrow> error option \<times> 'w"

definition logged :: "'r call \<Rightarrow> 'w \<Rightarrow> ('w, 'r) state \<Rightarrow> ('w, 'r) state" where
  "logged c w s = \<lparr>calls = calls s @ [c], world = w\<rparr>"

section \<open>Formatting with the verb d\<close>

definition digit :: "nat \<Rightarrow> char" where
  "digit n = ''0123456789'' ! (n mod 10)"

function decimal :: "nat \<Rightarrow> string" where
  "decimal n = (if n < 10 then [digit n] else decimal (n div 10) @ [digit n])"
  by pat_completeness auto
termination
  by (relation "measure (\<lambda>n. n)") auto

definition Sprintf_d :: "int \<Rightarrow> string" where
  "Sprintf_d i = (if i < 0 then CHR ''-'' # decimal (nat (- i)) else decimal (nat i))"

section \<open>The dispatch callback: handleMessage, lines 73-96\<close>

definition handleMessage ::
  "('w, 'r, 'em, 'cf, 'co) env \<Rightarrow> ('w, 'r) ListenerConfig \<Rightarrow> ('w, 'r) callback" where
  "handleMessage env lc message s =
     (let m = \<lparr>nsq_Message = message, ReplyTo = ''''\<rparr> in
      case json_Unmarshal env (Body message) m of
        Inl err \<Rightarrow> (Returns (Some err), s)
      | Inr m \<Rightarrow>
          (case HandlerFunc lc of
             None \<Rightarrow> (Panics, s)
           | Some h \<Rightarrow>
               (case h m (world s) of
                  ((Inl err, m'), w1) \<Rightarrow> (Returns (Some err), logged (CallHandler m) w1 s)
                | ((Inr res, m'), w1) \<Rightarrow>
                    (let s1 = logged (CallHandler m) w1 s in
                     if ReplyTo m' = '''' then (Returns None, s1)
                     else
                       (case NewEmitter env (world s1) of
                          (Inl err, w2) \<Rightarrow> (Returns (Some err), logged CallNewEmitter w2 s1)
                        | (Inr emitter, w2) \<Rightarrow>
                            (let s2 = logged CallNewEmitter w2 s1 in
                             case Emit env emitter (ReplyTo m') res (world s2) of
                               (r, w3) \<Rightarrow> (Returns r, logged (CallEmit (ReplyTo m') res) w3 s2)))))))"

section \<open>The provisioner: checkTopic, lines 98-116, and createTopic, lines 118-159\<close>

definition checkTopic ::
  "('w, 'r, 'em, 'cf, 'co) env \<Rightarrow> string \<Rightarrow> string \<Rightarrow> ('w, 'r) state
     \<Rightarrow> (error + bool) \<times> ('w, 'r) state" where
  "checkTopic env lookupAddress topic s =
     (let url = ''http://'' @ lookupAddress @ ''/lookup?topic='' @ topic in
      case http_Get env url (world s) of
        (Inl err, w1) \<Rightarrow> (Inl err, logged (HttpGet url) w1 s)
      | (Inr resp, w1) \<Rightarrow>
          (let s1 = logged (HttpGet url) w1 s in
           if StatusCode resp = StatusOK then (Inr True, s1)
           else if StatusCode resp = StatusNotFound then (Inr False, s1)
           else (Inl (ErrorString (''unexpected status code: '' @ Sprintf_d (StatusCode resp))), s1)))"

definition createTopic ::
  "('w, 'r, 'em, 'cf, 'co) env \<Rightarrow> string \<Rightarrow> string \<Rightarrow> ('w, 'r) state
     \<Rightarrow> error option \<times> ('w, 'r) state" where
  "createTopic env topic lookupAddress s =
     (let lookupURL = ''http://'' @ lookupAddress @ ''/nodes'' in
      case http_Get env lookupURL (world s) of
        (Inl err, w1) \<Rightarrow> (Some err, logged (HttpGet lookupURL) w1 s)
      | (Inr resp, w1) \<Rightarrow>
          (let s1 = logged (HttpGet lookupURL) w1 s in
           if StatusCode resp \<noteq> StatusOK
           then (Some (ErrorString (''failed to get nsqd address from lookup: '' @ Status resp)), s1)
           else
             (case json_Decode_nodes env (Response_Body resp) of
                Inl err \<Rightarrow> (Some err, s1)
              | Inr nodes \<Rightarrow>
                  (case nodes of
                     [] \<Rightarrow> (Some (ErrorString ''no nsqd nodes found in lookup''), s1)
                   | n0 # _ \<Rightarrow>
                       (let nsqdAddress = Address n0 @ '':'' @ Sprintf_d (TCPPort n0);
                            createURL = ''http://'' @ nsqdAddress @ ''/topic/create?topic='' @ topic
                        in case http_Post env createURL '''' (world s1) of
                             (Inl err, w2) \<Rightarrow> (Some err, logged (HttpPost createURL '''') w2 s1)
                           | (Inr createResp, w2) \<Rightarrow>
                               (let s2 = logged (HttpPost createURL '''') w2 s1 in
                                if StatusCode createResp = StatusOK then (None, s2)
                                else (Some (ErrorString (''failed to create topic: '' @ Status createResp)), s2)))))))"

section \<open>The listener: On, lines 27-71\<close>

text \<open>Lines 50-59: the existence check and, for an absent topic, the creation.\<close>

definition ensureTopic ::
  "('w, 'r, 'em, 'cf, 'co) env \<Rightarrow> string \<Rightarrow> string \<Rightarrow> ('w, 'r) state
     \<Rightarrow> error option \<times> ('w, 'r) state" where
  "ensureTopic env lookupAddress topic s =
     (case checkTopic env lookupAddress topic s of
        (Inl err, s1) \<Rightarrow> (Some err, s1)
      | (Inr exist, s1) \<Rightarrow>
          (if \<not> exist then createTopic env topic lookupAddress s1 else (None, s1)))"

text \<open>Lines 62-70: the consumer, its handlers, the connection.\<close>

definition On_subscribe ::
  "('w, 'r, 'em, 'cf, 'co) env \<Rightarrow> ('w, 'r) ListenerConfig \<Rightarrow> ('w, 'r) state
     \<Rightarrow> outcome \<times> ('w, 'r) state" where
  "On_subscribe env lc s =
     (let config = newListenerConfig env lc in
      case nsq_NewConsumer env (Topic lc) (Channel lc) config (world s) of
        (Inl err, w1) \<Rightarrow> (Returns (Some err), logged (CallNewConsumer (Topic lc) (Channel lc)) w1 s)
      | (Inr consumer, w1) \<Rightarrow>
          (let s1 = logged (CallNewConsumer (Topic lc) (Channel lc)) w1 s;
               handler = handleMessage env lc;
               s2 = logged (CallAddConcurrentHandlers (HandlerConcurrency lc))
                      (AddConcurrentHandlers env consumer handler (HandlerConcurrency lc) (world s1)) s1
           in case ConnectToNSQLookupds env consumer (Lookup lc) (world s2) of
                (r, w3) \<Rightarrow> (Returns r, logged (CallConnectToNSQLookupds (Lookup lc)) w3 s2)))"

text \<open>Lines 48-70: what On does with the configuration once its defaults are filled.\<close>

definition On_configured ::
  "('w, 'r, 'em, 'cf, 'co) env \<Rightarrow> ('w, 'r) ListenerConfig \<Rightarrow> ('w, 'r) state
     \<Rightarrow> outcome \<times> ('w, 'r) state" where
  "On_configured env lc s =
     (if AutoCreateTopic lc then
        (case Lookup lc of
           [] \<Rightarrow> (Panics, s)
         | a # _ \<Rightarrow>
             (case ensureTopic env a (Topic lc) s of
                (Some err, s1) \<Rightarrow> (Returns (Some err), s1)
              | (None, s1) \<Rightarrow> On_subscribe env lc s1))
      else On_subscribe env lc s)"

definition On ::
  "('w, 'r, 'em, 'cf, 'co) env \<Rightarrow> ('w, 'r) ListenerConfig \<Rightarrow> ('w, 'r) state
     \<Rightarrow> outcome \<times> ('w, 'r) state" where
  "On env lc s =
     (if length (Topic lc) = 0 then (Returns (Some ErrTopicRequired), s)
      else if length (Channel lc) = 0 then (Returns (Some ErrChannelRequired), s)
      else if HandlerFunc lc = None then (Returns (Some ErrHandlerRequired), s)
      else
        (let lc1 = (if length (Lookup lc) = 0 then lc\<lparr>Lookup := [''localhost:4161'']\<rparr> else lc);
             lc2 = (if HandlerConcurrency lc1 = 0 then lc1\<lparr>HandlerConcurrency := 1\<rparr> else lc1)
         in On_configured env lc2 s))"

section \<open>A concrete deployment\<close>

text \<open>
  A small world to run the model on: a discovery service at \<open>disc:4161\<close> that does not
  know the topic \<open>orders\<close> and lists one broker, \<open>n1:4150\<close>. The world is a counter of
  the calls it has served. The message decoder is a stand-in that reads the reply
  destination after the prefix \<open>ReplyTo=\<close>.
\<close>

definition demo_handler :: "(nat, string) HandlerFunc" where
  "demo_handler m w = ((Inr ''done'', m), Suc w)"

definition failing_handler :: "(nat, string) HandlerFunc" where
  "failing_handler m w = ((Inl (ErrorString ''out of stock''), m), Suc w)"

definition demo_response :: "int \<Rightarrow> string \<Rightarrow> string \<Rightarrow> Response" where
  "demo_response code text body = \<lparr>StatusCode = code, Status = text, Response_Body = body\<rparr>"

definition demo_env :: "(nat, string, unit, unit, unit) env" where
  "demo_env =
     \<lparr>http_Get = (\<lambda>url w.
         if url = ''http://disc:4161/lookup?topic=orders''
         then (Inr (demo_response 404 ''404 Not Found'' ''''), Suc w)
         else if url = ''http://disc:4161/nodes''
         then (Inr (demo_response 200 ''200 OK'' ''one node''), Suc w)
         else (Inl (ErrorString ''connection refused''), Suc w)),
       http_Post = (\<lambda>url contentType w. (Inr (demo_response 200 ''200 OK'' ''''), Suc w)),
       json_Unmarshal = (\<lambda>body m.
         if take 8 body = ''ReplyTo='' then Inr (m\<lparr>ReplyTo := drop 8 body\<rparr>)
         else Inl (ErrorString ''invalid character'')),
       json_Decode_nodes = (\<lambda>body.
         if body = ''one node'' then Inr [\<lparr>Address = ''n1'', TCPPort = 4150\<rparr>]
         else if body = ''no node'' then Inr []
         else Inl (ErrorString ''unexpected end of JSON input'')),
       NewEmitter = (\<lambda>w. (Inr (), Suc w)),
       Emit = (\<lambda>emitter topic payload w. (None, Suc w)),
       newListenerConfig = (\<lambda>lc. ()),
       nsq_NewConsumer = (\<lambda>topic channel config w. (Inr (), Suc w)),
       AddConcurrentHandlers = (\<lambda>consumer handler concurrency w. Suc w),
       ConnectToNSQLookupds = (\<lambda>consumer addresses w. (None, Suc w))\<rparr>"

text \<open>The same deployment with every GET answered by one fixed response.\<close>

definition demo_env_get :: "int \<Rightarrow> string \<Rightarrow> string \<Rightarrow> (nat, string, unit, unit, unit) env" where
  "demo_env_get code text body =
     demo_env\<lparr>http_Get := (\<lambda>url w. (Inr (demo_response code text body), Suc w))\<rparr>"

text \<open>The same deployment with a broker that refuses to create topics.\<close>

definition demo_env_refusing :: "(nat, string, unit, unit, unit) env" where
  "demo_env_refusing =
     demo_env\<lparr>http_Post := (\<lambda>url contentType w.
        (Inr (demo_response 500 ''500 Internal Server Error'' ''''), Suc w))\<rparr>"

text \<open>The same deployment where no emitter can be built, and one where publishing fails.\<close>

definition demo_env_no_emitter :: "(nat, string, unit, unit, unit) env" where
  "demo_env_no_emitter = demo_env\<lparr>NewEmitter := (\<lambda>w. (Inl (ErrorString ''no producer''), w))\<rparr>"

definition demo_env_no_publish :: "(nat, string, unit, unit, unit) env" where
  "demo_env_no_publish =
     demo_env\<lparr>Emit := (\<lambda>emitter topic payload w. (Some (ErrorString ''not connected''), Suc w))\<rparr>"

definition demo_lc :: "(nat, string) ListenerConfig" where
  "demo_lc = \<lparr>Topic = ''orders'', Channel = ''billing'', HandlerFunc = Some demo_handler,
               Lookup = [''disc:4161''], HandlerConcurrency = 1, AutoCreateTopic = True\<rparr>"

definition demo_state :: "(nat, string) state" where
  "demo_state = \<lparr>calls = [], world = 0\<rparr>"

definition demo_message :: "string \<Rightarrow> Message" where
  "demo_message replyTo = \<lparr>nsq_Message = \<lparr>Body = ''ReplyTo='' @ replyTo\<rparr>, ReplyTo = replyTo\<rparr>"

lemmas demo_defs = demo_env_def demo_env_get_def demo_env_refusing_def demo_env_no_emitter_def
  demo_env_no_publish_def demo_lc_def demo_state_def demo_handler_def failing_handler_def
  demo_response_def demo_message_def logged_def Sprintf_d_def digit_def

section \<open>The log and the world after a call\<close>

lemma calls_logged: "calls (logged c w s) = calls s @ [c]"
  by (simp add: logged_def)

lemma world_logged: "world (logged c w s) = w"
  by (simp add: logged_def)

lemma checkTopic_calls:
  "calls (snd (checkTopic env a t s)) = calls s @ [HttpGet (''http://'' @ a @ ''/lookup?topic='' @ t)]"
  by (simp add: checkTopic_def Let_def calls_logged split: prod.splits sum.splits)

lemma createTopic_transport:
  "filter is_transport_call (calls (snd (createTopic env t a s))) = filter is_transport_call (calls s)"
  by (simp add: createTopic_def Let_def calls_logged split: prod.splits sum.splits list.splits)

lemma ensureTopic_transport:
  "filter is_transport_call (calls (snd (ensureTopic env a t s))) = filter is_transport_call (calls s)"
proof (cases "checkTopic env a t s")
  case (Pair r s1)
  have c: "filter is_transport_call (calls s1) = filter is_transport_call (calls s)"
    using checkTopic_calls [of env a t s] Pair by simp
  show ?thesis
  proof (cases r)
    case (Inl e)
    with Pair c show ?thesis by (simp add: ensureTopic_def)
  next
    case (Inr exist)
    with Pair c createTopic_transport [of env t a s1] show ?thesis
      by (simp add: ensureTopic_def)
  qed
qed

text \<open>
  \<open>On\<close> never panics: the only index it takes, \<open>lc.Lookup[0]\<close>, is taken after the
  empty list has been replaced by the default, and the handler it registers is not nil.
\<close>

lemma On_subscribe_returns: "\<exists>r. fst (On_subscribe env lc s) = Returns r"
  by (simp add: On_subscribe_def Let_def split: prod.splits sum.splits)

lemma On_never_panics: "fst (On env lc s) \<noteq> Panics"
proof -
  have "fst (On_configured env lc' s) \<noteq> Panics" if "Lookup lc' \<noteq> []" for lc'
  proof -
    have sub: "fst (On_subscribe env lc' s') \<noteq> Panics" for s'
      using On_subscribe_returns [of env lc' s'] by auto
    from that sub show ?thesis
      by (auto simp add: On_configured_def split: list.splits prod.splits option.splits)
  qed
  then show ?thesis
    by (simp add: On_def Let_def)
qed

section \<open>The dispatch callback\<close>

text \<open>
  C1, as the code has it. The body parses into an Envelope and the handler succeeds.
  Let X be the Envelope's replyTo when the handler returns (the handler holds a pointer
  to the Envelope). If X is empty the callback returns success and publishes nothing.
  If X is not empty and the emission client is built, the callback makes exactly one
  publish call, to X, with the handler's result as payload, and returns what that call
  returns.
\<close>

theorem handleMessage_reply:
  assumes "json_Unmarshal env (Body message) \<lparr>nsq_Message = message, ReplyTo = ''''\<rparr> = Inr m"
      and "HandlerFunc lc = Some h"
      and "h m (world s) = ((Inr res, m'), w1)"
  shows "(ReplyTo m' = '''' \<longrightarrow>
            handleMessage env lc message s = (Returns None, logged (CallHandler m) w1 s) \<and>
            filter is_publish_call (calls (snd (handleMessage env lc message s)))
              = filter is_publish_call (calls s)) \<and>
         (\<forall>emitter w2. ReplyTo m' \<noteq> '''' \<and> NewEmitter env w1 = (Inr emitter, w2) \<longrightarrow>
            handleMessage env lc message s
              = (Returns (fst (Emit env emitter (ReplyTo m') res w2)),
                 logged (CallEmit (ReplyTo m') res) (snd (Emit env emitter (ReplyTo m') res w2))
                   (logged CallNewEmitter w2 (logged (CallHandler m) w1 s))) \<and>
            filter is_publish_call (calls (snd (handleMessage env lc message s)))
              = filter is_publish_call (calls s) @ [CallEmit (ReplyTo m') res])"
  using assms
  by (auto simp add: handleMessage_def Let_def calls_logged world_logged split: prod.splits)

theorem handleMessage_reply_witness:
  "handleMessage demo_env demo_lc \<lparr>Body = ''ReplyTo=''\<rparr> demo_state
     = (Returns None, \<lparr>calls = [CallHandler (demo_message '''')], world = 1\<rparr>) \<and>
   handleMessage demo_env demo_lc \<lparr>Body = ''ReplyTo=X''\<rparr> demo_state
     = (Returns None,
        \<lparr>calls = [CallHandler (demo_message ''X''), CallNewEmitter, CallEmit ''X'' ''done''],
         world = 3\<rparr>) \<and>
   filter is_publish_call
       (calls (snd (handleMessage demo_env demo_lc \<lparr>Body = ''ReplyTo=X''\<rparr> demo_state)))
     = [CallEmit ''X'' ''done'']"
  using handleMessage_reply [where env = demo_env and message = "\<lparr>Body = ''ReplyTo=''\<rparr>"
          and m = "demo_message ''''" and lc = demo_lc and h = demo_handler and s = demo_state
          and res = "''done''" and m' = "demo_message ''''" and ?w1.0 = 1]
        handleMessage_reply [where env = demo_env and message = "\<lparr>Body = ''ReplyTo=X''\<rparr>"
          and m = "demo_message ''X''" and lc = demo_lc and h = demo_handler and s = demo_state
          and res = "''done''" and m' = "demo_message ''X''" and ?w1.0 = 1]
  by (simp add: demo_defs)

text \<open>
  The claim as written fails where the emission client cannot be built: the body
  parses with replyTo \<open>X\<close>, the handler succeeds, and no publish call is made.
\<close>

theorem handleMessage_reply_counterexample:
  "json_Unmarshal demo_env_no_emitter (Body \<lparr>Body = ''ReplyTo=X''\<rparr>)
       \<lparr>nsq_Message = \<lparr>Body = ''ReplyTo=X''\<rparr>, ReplyTo = ''''\<rparr> = Inr (demo_message ''X'') \<and>
   ReplyTo (demo_message ''X'') = ''X'' \<and>
   HandlerFunc demo_lc = Some demo_handler \<and>
   demo_handler (demo_message ''X'') (world demo_state) = ((Inr ''done'', demo_message ''X''), 1) \<and>
   handleMessage demo_env_no_emitter demo_lc \<lparr>Body = ''ReplyTo=X''\<rparr> demo_state
     = (Returns (Some (ErrorString ''no producer'')),
        \<lparr>calls = [CallHandler (demo_message ''X''), CallNewEmitter], world = 1\<rparr>) \<and>
   filter is_publish_call
       (calls (snd (handleMessage demo_env_no_emitter demo_lc \<lparr>Body = ''ReplyTo=X''\<rparr> demo_state)))
     = []"
  by (simp add: handleMessage_def demo_defs)

text \<open>
  C4. The callback hands every error on and tries nothing twice. A body that does not
  parse gives the parse error, with the world and the log untouched, so the handler is
  not called. A handler error is returned as it is, after the one handler call and
  nothing else. A failed publish gives the publish error as the callback's result,
  after one handler call, one emitter construction and one publish call.
\<close>

theorem handleMessage_propagates_errors:
  "(\<forall>e. json_Unmarshal env (Body message) \<lparr>nsq_Message = message, ReplyTo = ''''\<rparr> = Inl e \<longrightarrow>
      handleMessage env lc message s = (Returns (Some e), s)) \<and>
   (\<forall>m h e m' w1.
      json_Unmarshal env (Body message) \<lparr>nsq_Message = message, ReplyTo = ''''\<rparr> = Inr m \<and>
      HandlerFunc lc = Some h \<and> h m (world s) = ((Inl e, m'), w1) \<longrightarrow>
      handleMessage env lc message s = (Returns (Some e), logged (CallHandler m) w1 s)) \<and>
   (\<forall>m h res m' w1 emitter w2 e w3.
      json_Unmarshal env (Body message) \<lparr>nsq_Message = message, ReplyTo = ''''\<rparr> = Inr m \<and>
      HandlerFunc lc = Some h \<and> h m (world s) = ((Inr res, m'), w1) \<and> ReplyTo m' \<noteq> '''' \<and>
      NewEmitter env w1 = (Inr emitter, w2) \<and> Emit env emitter (ReplyTo m') res w2 = (Some e, w3) \<longrightarrow>
      handleMessage env lc message s
        = (Returns (Some e),
           logged (CallEmit (ReplyTo m') res) w3
             (logged CallNewEmitter w2 (logged (CallHandler m) w1 s))))"
  by (auto simp add: handleMessage_def Let_def world_logged)

theorem handleMessage_propagates_errors_witness:
  "handleMessage demo_env demo_lc \<lparr>Body = ''zzz''\<rparr> demo_state
     = (Returns (Some (ErrorString ''invalid character'')), demo_state) \<and>
   handleMessage demo_env (demo_lc\<lparr>HandlerFunc := Some failing_handler\<rparr>) \<lparr>Body = ''ReplyTo=X''\<rparr> demo_state
     = (Returns (Some (ErrorString ''out of stock'')),
        \<lparr>calls = [CallHandler (demo_message ''X'')], world = 1\<rparr>) \<and>
   handleMessage demo_env_no_publish demo_lc \<lparr>Body = ''ReplyTo=X''\<rparr> demo_state
     = (Returns (Some (ErrorString ''not connected'')),
        \<lparr>calls = [CallHandler (demo_message ''X''), CallNewEmitter, CallEmit ''X'' ''done''],
         world = 3\<rparr>)"
proof -
  have parse: "json_Unmarshal demo_env (Body \<lparr>Body = ''zzz''\<rparr>)
                 \<lparr>nsq_Message = \<lparr>Body = ''zzz''\<rparr>, ReplyTo = ''''\<rparr> = Inl (ErrorString ''invalid character'')"
    by (simp add: demo_defs)
  have handler: "json_Unmarshal demo_env (Body \<lparr>Body = ''ReplyTo=X''\<rparr>)
                   \<lparr>nsq_Message = \<lparr>Body = ''ReplyTo=X''\<rparr>, ReplyTo = ''''\<rparr> = Inr (demo_message ''X'') \<and>
                 HandlerFunc (demo_lc\<lparr>HandlerFunc := Some failing_handler\<rparr>) = Some failing_handler \<and>
                 failing_handler (demo_message ''X'') (world demo_state)
                   = ((Inl (ErrorString ''out of stock''), demo_message ''X''), 1)"
    by (simp add: demo_defs)
  have publish: "json_Unmarshal demo_env_no_publish (Body \<lparr>Body = ''ReplyTo=X''\<rparr>)
                   \<lparr>nsq_Message = \<lparr>Body = ''ReplyTo=X''\<rparr>, ReplyTo = ''''\<rparr> = Inr (demo_message ''X'') \<and>
                 HandlerFunc demo_lc = Some demo_handler \<and>
                 demo_handler (demo_message ''X'') (world demo_state) = ((Inr ''done'', demo_message ''X''), 1) \<and>
                 ReplyTo (demo_message ''X'') \<noteq> '''' \<and>
                 NewEmitter demo_env_no_publish 1 = (Inr (), 2) \<and>
                 Emit demo_env_no_publish () (ReplyTo (demo_message ''X'')) ''done'' 2
                   = (Some (ErrorString ''not connected''), 3)"
    by (simp add: demo_defs)
  have one: "handleMessage demo_env demo_lc \<lparr>Body = ''zzz''\<rparr> demo_state
               = (Returns (Some (ErrorString ''invalid character'')), demo_state)"
    using handleMessage_propagates_errors
            [where env = demo_env and message = "\<lparr>Body = ''zzz''\<rparr>" and lc = demo_lc and s = demo_state]
          parse
    by blast
  have two: "handleMessage demo_env (demo_lc\<lparr>HandlerFunc := Some failing_handler\<rparr>)
                 \<lparr>Body = ''ReplyTo=X''\<rparr> demo_state
               = (Returns (Some (ErrorString ''out of stock'')),
                  logged (CallHandler (demo_message ''X'')) 1 demo_state)"
    using handleMessage_propagates_errors
            [where env = demo_env and message = "\<lparr>Body = ''ReplyTo=X''\<rparr>"
               and lc = "demo_lc\<lparr>HandlerFunc := Some failing_handler\<rparr>" and s = demo_state]
          handler
    by blast
  have three: "handleMessage demo_env_no_publish demo_lc \<lparr>Body = ''ReplyTo=X''\<rparr> demo_state
               = (Returns (Some (ErrorString ''not connected'')),
                  logged (CallEmit (ReplyTo (demo_message ''X'')) ''done'') 3
                    (logged CallNewEmitter 2 (logged (CallHandler (demo_message ''X'')) 1 demo_state)))"
    using handleMessage_propagates_errors
            [where env = demo_env_no_publish and message = "\<lparr>Body = ''ReplyTo=X''\<rparr>"
               and lc = demo_lc and s = demo_state]
          publish
    by blast
  from one two three show ?thesis
    by (simp add: logged_def demo_state_def demo_message_def)
qed

text \<open>
  C10. The body parses, the handler succeeds and leaves a non-empty replyTo, and the
  emission client cannot be built: the callback returns the construction error and
  makes no publish call.
\<close>

theorem handleMessage_emitter_failure:
  assumes "json_Unmarshal env (Body message) \<lparr>nsq_Message = message, ReplyTo = ''''\<rparr> = Inr m"
      and "HandlerFunc lc = Some h"
      and "h m (world s) = ((Inr res, m'), w1)"
      and "ReplyTo m' \<noteq> ''''"
      and "NewEmitter env w1 = (Inl e, w2)"
  shows "handleMessage env lc message s
           = (Returns (Some e), logged CallNewEmitter w2 (logged (CallHandler m) w1 s)) \<and>
         filter is_publish_call (calls (snd (handleMessage env lc message s)))
           = filter is_publish_call (calls s)"
  using assms
  by (auto simp add: handleMessage_def Let_def calls_logged world_logged)

theorem handleMessage_emitter_failure_witness:
  "handleMessage demo_env_no_emitter demo_lc \<lparr>Body = ''ReplyTo=reply''\<rparr> demo_state
     = (Returns (Some (ErrorString ''no producer'')),
        logged CallNewEmitter 1 (logged (CallHandler (demo_message ''reply'')) 1 demo_state)) \<and>
   filter is_publish_call
       (calls (snd (handleMessage demo_env_no_emitter demo_lc \<lparr>Body = ''ReplyTo=reply''\<rparr> demo_state)))
     = filter is_publish_call (calls demo_state)"
proof -
  have "json_Unmarshal demo_env_no_emitter (Body \<lparr>Body = ''ReplyTo=reply''\<rparr>)
          \<lparr>nsq_Message = \<lparr>Body = ''ReplyTo=reply''\<rparr>, ReplyTo = ''''\<rparr> = Inr (demo_message ''reply'')"
    and "HandlerFunc demo_lc = Some demo_handler"
    and "demo_handler (demo_message ''reply'') (world demo_state) = ((Inr ''done'', demo_message ''reply''), 1)"
    and "ReplyTo (demo_message ''reply'') \<noteq> ''''"
    and "NewEmitter demo_env_no_emitter 1 = (Inl (ErrorString ''no producer''), 1)"
    by (simp_all add: demo_defs)
  then show ?thesis
    by (rule handleMessage_emitter_failure)
qed

section \<open>The provisioner\<close>

text \<open>
  C2. The existence check branches three ways on the status of the \<open>/lookup\<close> response.
  With 200 the provisioner returns success at once: the lookup is the only call made.
  With 404 it goes on to the creation, from the state the lookup left. With any other
  status it returns an error naming the status, and again the lookup is the only call
  made: neither \<open>/nodes\<close> is queried nor a create-topic call issued.
\<close>

theorem ensureTopic_three_way:
  assumes "http_Get env (''http://'' @ addr @ ''/lookup?topic='' @ topic) (world s) = (Inr resp, w1)"
  shows "(StatusCode resp = 200 \<longrightarrow>
            ensureTopic env addr topic s
              = (None, logged (HttpGet (''http://'' @ addr @ ''/lookup?topic='' @ topic)) w1 s)) \<and>
         (StatusCode resp = 404 \<longrightarrow>
            ensureTopic env addr topic s
              = createTopic env topic addr
                  (logged (HttpGet (''http://'' @ addr @ ''/lookup?topic='' @ topic)) w1 s)) \<and>
         (StatusCode resp \<noteq> 200 \<and> StatusCode resp \<noteq> 404 \<longrightarrow>
            ensureTopic env addr topic s
              = (Some (ErrorString (''unexpected status code: '' @ Sprintf_d (StatusCode resp))),
                 logged (HttpGet (''http://'' @ addr @ ''/lookup?topic='' @ topic)) w1 s))"
  using assms
  by (simp add: ensureTopic_def checkTopic_def Let_def StatusOK_def StatusNotFound_def)

theorem ensureTopic_three_way_witness:
  "ensureTopic (demo_env_get 200 ''200 OK'' '''') ''disc:4161'' ''orders'' demo_state
     = (None, \<lparr>calls = [HttpGet ''http://disc:4161/lookup?topic=orders''], world = 1\<rparr>) \<and>
   ensureTopic demo_env ''disc:4161'' ''orders'' demo_state
     = createTopic demo_env ''orders'' ''disc:4161''
         \<lparr>calls = [HttpGet ''http://disc:4161/lookup?topic=orders''], world = 1\<rparr> \<and>
   ensureTopic (demo_env_get 500 ''500 Internal Server Error'' '''') ''disc:4161'' ''orders'' demo_state
     = (Some (ErrorString ''unexpected status code: 500''),
        \<lparr>calls = [HttpGet ''http://disc:4161/lookup?topic=orders''], world = 1\<rparr>)"
  using ensureTopic_three_way [where env = "demo_env_get 200 ''200 OK'' ''''" and addr = "''disc:4161''"
          and topic = "''orders''" and s = demo_state
          and resp = "demo_response 200 ''200 OK'' ''''" and ?w1.0 = 1]
        ensureTopic_three_way [where env = demo_env and addr = "''disc:4161''"
          and topic = "''orders''" and s = demo_state
          and resp = "demo_response 404 ''404 Not Found'' ''''" and ?w1.0 = 1]
        ensureTopic_three_way [where env = "demo_env_get 500 ''500 Internal Server Error'' ''''"
          and addr = "''disc:4161''" and topic = "''orders''" and s = demo_state
          and resp = "demo_response 500 ''500 Internal Server Error'' ''''" and ?w1.0 = 1]
  by (simp add: demo_defs)

text \<open>
  C3. The creation, once \<open>/nodes\<close> has answered. A status other than 200 is an error
  carrying the status text. A 200 answer whose node list is empty is the error
  \<open>no nsqd nodes found in lookup\<close>, and the \<open>/nodes\<close> query is the only call made. A 200
  answer whose list starts with a node \<open>n0\<close> leads to exactly one POST, to
  \<open>http://address:port/topic/create?topic=...\<close> of \<open>n0\<close>; the creation succeeds if and only
  if that POST answers 200, and an answer with another status is an error carrying
  the broker's status text.
\<close>

theorem createTopic_steps:
  assumes "http_Get env (''http://'' @ addr @ ''/nodes'') (world s) = (Inr resp, w1)"
  shows "(StatusCode resp \<noteq> 200 \<longrightarrow>
            createTopic env topic addr s
              = (Some (ErrorString (''failed to get nsqd address from lookup: '' @ Status resp)),
                 logged (HttpGet (''http://'' @ addr @ ''/nodes'')) w1 s)) \<and>
         (StatusCode resp = 200 \<and> json_Decode_nodes env (Response_Body resp) = Inr [] \<longrightarrow>
            createTopic env topic addr s
              = (Some (ErrorString ''no nsqd nodes found in lookup''),
                 logged (HttpGet (''http://'' @ addr @ ''/nodes'')) w1 s)) \<and>
         (\<forall>n0 ns. StatusCode resp = 200 \<and> json_Decode_nodes env (Response_Body resp) = Inr (n0 # ns) \<longrightarrow>
            (let createURL = ''http://'' @ Address n0 @ '':'' @ Sprintf_d (TCPPort n0)
                               @ ''/topic/create?topic='' @ topic;
                 posted = http_Post env createURL '''' w1;
                 result = createTopic env topic addr s
             in snd result
                  = logged (HttpPost createURL '''') (snd posted)
                      (logged (HttpGet (''http://'' @ addr @ ''/nodes'')) w1 s) \<and>
                (fst result = None \<longleftrightarrow> (\<exists>createResp. fst posted = Inr createResp \<and> StatusCode createResp = 200)) \<and>
                (\<forall>createResp. fst posted = Inr createResp \<and> StatusCode createResp \<noteq> 200 \<longrightarrow>
                   fst result = Some (ErrorString (''failed to create topic: '' @ Status createResp)))))"
  using assms
  by (auto simp add: createTopic_def Let_def StatusOK_def world_logged split: prod.splits sum.splits)

theorem createTopic_steps_witness:
  "createTopic (demo_env_get 503 ''503 Service Unavailable'' '''') ''orders'' ''disc:4161'' demo_state
     = (Some (ErrorString ''failed to get nsqd address from lookup: 503 Service Unavailable''),
        \<lparr>calls = [HttpGet ''http://disc:4161/nodes''], world = 1\<rparr>) \<and>
   createTopic (demo_env_get 200 ''200 OK'' ''no node'') ''orders'' ''disc:4161'' demo_state
     = (Some (ErrorString ''no nsqd nodes found in lookup''),
        \<lparr>calls = [HttpGet ''http://disc:4161/nodes''], world = 1\<rparr>) \<and>
   createTopic demo_env ''orders'' ''disc:4161'' demo_state
     = (None,
        \<lparr>calls = [HttpGet ''http://disc:4161/nodes'',
                  HttpPost ''http://n1:4150/topic/create?topic=orders'' ''''], world = 2\<rparr>) \<and>
   createTopic demo_env_refusing ''orders'' ''disc:4161'' demo_state
     = (Some (ErrorString ''failed to create topic: 500 Internal Server Error''),
        \<lparr>calls = [HttpGet ''http://disc:4161/nodes'',
                  HttpPost ''http://n1:4150/topic/create?topic=orders'' ''''], world = 2\<rparr>)"
proof -
  have get1: "http_Get (demo_env_get 503 ''503 Service Unavailable'' '''') (''http://'' @ ''disc:4161'' @ ''/nodes'')
                (world demo_state) = (Inr (demo_response 503 ''503 Service Unavailable'' ''''), 1)"
    by (simp add: demo_defs)
  have one: "createTopic (demo_env_get 503 ''503 Service Unavailable'' '''') ''orders'' ''disc:4161'' demo_state
     = (Some (ErrorString ''failed to get nsqd address from lookup: 503 Service Unavailable''),
        \<lparr>calls = [HttpGet ''http://disc:4161/nodes''], world = 1\<rparr>)"
    using createTopic_steps [OF get1, of "''orders''"]
    by (simp add: demo_response_def demo_state_def logged_def)
  have get2: "http_Get (demo_env_get 200 ''200 OK'' ''no node'') (''http://'' @ ''disc:4161'' @ ''/nodes'')
                (world demo_state) = (Inr (demo_response 200 ''200 OK'' ''no node''), 1)"
    by (simp add: demo_defs)
  have two: "createTopic (demo_env_get 200 ''200 OK'' ''no node'') ''orders'' ''disc:4161'' demo_state
     = (Some (ErrorString ''no nsqd nodes found in lookup''),
        \<lparr>calls = [HttpGet ''http://disc:4161/nodes''], world = 1\<rparr>)"
    using createTopic_steps [OF get2, of "''orders''"]
    by (simp add: demo_response_def demo_state_def logged_def demo_env_get_def demo_env_def)
  have get3: "http_Get demo_env (''http://'' @ ''disc:4161'' @ ''/nodes'')
                (world demo_state) = (Inr (demo_response 200 ''200 OK'' ''one node''), 1)"
    by (simp add: demo_defs)
  have nodes3: "StatusCode (demo_response 200 ''200 OK'' ''one node'') = 200 \<and>
                json_Decode_nodes demo_env (Response_Body (demo_response 200 ''200 OK'' ''one node''))
                  = Inr [\<lparr>Address = ''n1'', TCPPort = 4150\<rparr>]"
    by (simp add: demo_response_def demo_env_def)
  have url: "''http://'' @ Address \<lparr>Address = ''n1'', TCPPort = 4150\<rparr> @ '':''
               @ Sprintf_d (TCPPort \<lparr>Address = ''n1'', TCPPort = 4150\<rparr>) @ ''/topic/create?topic='' @ ''orders''
             = ''http://n1:4150/topic/create?topic=orders''"
    by (simp add: Sprintf_d_def digit_def)
  have post3: "http_Post demo_env ''http://n1:4150/topic/create?topic=orders'' '''' 1
                 = (Inr (demo_response 200 ''200 OK'' ''''), 2)"
    by (simp add: demo_env_def)
  have three: "createTopic demo_env ''orders'' ''disc:4161'' demo_state
     = (None,
        \<lparr>calls = [HttpGet ''http://disc:4161/nodes'',
                  HttpPost ''http://n1:4150/topic/create?topic=orders'' ''''], world = 2\<rparr>)"
    using createTopic_steps [OF get3, of "''orders''", THEN conjunct2, THEN conjunct2, rule_format, OF nodes3]
    unfolding Let_def url post3
    by (simp add: prod_eq_iff demo_response_def demo_state_def logged_def)
  have get4: "http_Get demo_env_refusing (''http://'' @ ''disc:4161'' @ ''/nodes'')
                (world demo_state) = (Inr (demo_response 200 ''200 OK'' ''one node''), 1)"
    by (simp add: demo_defs)
  have nodes4: "StatusCode (demo_response 200 ''200 OK'' ''one node'') = 200 \<and>
                json_Decode_nodes demo_env_refusing (Response_Body (demo_response 200 ''200 OK'' ''one node''))
                  = Inr [\<lparr>Address = ''n1'', TCPPort = 4150\<rparr>]"
    by (simp add: demo_response_def demo_env_def demo_env_refusing_def)
  have post4: "http_Post demo_env_refusing ''http://n1:4150/topic/create?topic=orders'' '''' 1
                 = (Inr (demo_response 500 ''500 Internal Server Error'' ''''), 2)"
    by (simp add: demo_env_refusing_def)
  have four: "createTopic demo_env_refusing ''orders'' ''disc:4161'' demo_state
     = (Some (ErrorString ''failed to create topic: 500 Internal Server Error''),
        \<lparr>calls = [HttpGet ''http://disc:4161/nodes'',
                  HttpPost ''http://n1:4150/topic/create?topic=orders'' ''''], world = 2\<rparr>)"
    using createTopic_steps [OF get4, of "''orders''", THEN conjunct2, THEN conjunct2, rule_format, OF nodes4]
    unfolding Let_def url post4
    by (simp add: prod_eq_iff demo_response_def demo_state_def logged_def)
  from one two three four show ?thesis
    by blast
qed

section \<open>The listener\<close>

text \<open>
  C5. On checks the topic, then the channel, then the handler, and stops at the first
  that is missing: an empty topic gives \<open>ErrTopicRequired\<close>; a topic without a channel
  gives \<open>ErrChannelRequired\<close>; a topic and a channel without a handler give
  \<open>ErrHandlerRequired\<close>. In each case the log and the world are as they were: no
  transport or network call is made.
\<close>

theorem On_validation_order:
  "(Topic lc = [] \<longrightarrow> On env lc s = (Returns (Some ErrTopicRequired), s)) \<and>
   (Topic lc \<noteq> [] \<and> Channel lc = [] \<longrightarrow> On env lc s = (Returns (Some ErrChannelRequired), s)) \<and>
   (Topic lc \<noteq> [] \<and> Channel lc \<noteq> [] \<and> HandlerFunc lc = None
      \<longrightarrow> On env lc s = (Returns (Some ErrHandlerRequired), s))"
  by (simp add: On_def)

theorem On_validation_order_witness:
  "On demo_env (demo_lc\<lparr>Topic := '''', Channel := ''''\<rparr>) demo_state
     = (Returns (Some ErrTopicRequired), demo_state) \<and>
   On demo_env (demo_lc\<lparr>Channel := '''', HandlerFunc := None\<rparr>) demo_state
     = (Returns (Some ErrChannelRequired), demo_state) \<and>
   On demo_env (demo_lc\<lparr>HandlerFunc := None\<rparr>) demo_state
     = (Returns (Some ErrHandlerRequired), demo_state)"
  using On_validation_order [where lc = "demo_lc\<lparr>Topic := '''', Channel := ''''\<rparr>"
          and env = demo_env and s = demo_state]
        On_validation_order [where lc = "demo_lc\<lparr>Channel := '''', HandlerFunc := None\<rparr>"
          and env = demo_env and s = demo_state]
        On_validation_order [where lc = "demo_lc\<lparr>HandlerFunc := None\<rparr>"
          and env = demo_env and s = demo_state]
  by (simp add: demo_lc_def)

text \<open>
  C7. For a configuration that passes validation, everything On does after the checks
  is done with the defaults filled in: an empty list of discovery addresses has become
  the one-element list \<open>localhost:4161\<close>, a concurrency of 0 has become 1, and a
  non-empty list, a non-zero concurrency and every other field are as the caller
  gave them.
\<close>

theorem On_fills_defaults:
  assumes "Topic lc \<noteq> []" and "Channel lc \<noteq> []" and "HandlerFunc lc \<noteq> None"
  shows "On env lc s =
           On_configured env
             (lc\<lparr>Lookup := (if Lookup lc = [] then [''localhost:4161''] else Lookup lc),
                 HandlerConcurrency := (if HandlerConcurrency lc = 0 then 1 else HandlerConcurrency lc)\<rparr>) s"
  using assms by (auto simp add: On_def Let_def)

theorem On_fills_defaults_witness:
  "On demo_env (demo_lc\<lparr>Lookup := [], HandlerConcurrency := 0\<rparr>) demo_state
     = On_configured demo_env (demo_lc\<lparr>Lookup := [''localhost:4161''], HandlerConcurrency := 1\<rparr>) demo_state \<and>
   On demo_env (demo_lc\<lparr>Lookup := [''a:1'', ''b:2''], HandlerConcurrency := 8\<rparr>) demo_state
     = On_configured demo_env (demo_lc\<lparr>Lookup := [''a:1'', ''b:2''], HandlerConcurrency := 8\<rparr>) demo_state"
  using On_fills_defaults [where lc = "demo_lc\<lparr>Lookup := [], HandlerConcurrency := 0\<rparr>"
          and env = demo_env and s = demo_state]
        On_fills_defaults [where lc = "demo_lc\<lparr>Lookup := [''a:1'', ''b:2''], HandlerConcurrency := 8\<rparr>"
          and env = demo_env and s = demo_state]
  by (simp add: demo_lc_def)

text \<open>
  C8. For a configuration that fails validation, a second call of On, made in the
  state the first call left, returns what the first returned; that result is one of
  the three validation errors; and the first call leaves the log and the world as
  they were, so neither call makes a network call or has any other effect.
\<close>

theorem On_invalid_twice:
  assumes "Topic lc = [] \<or> Channel lc = [] \<or> HandlerFunc lc = None"
  shows "On env lc (snd (On env lc s)) = On env lc s \<and>
         snd (On env lc s) = s \<and>
         fst (On env lc s) \<in> {Returns (Some ErrTopicRequired), Returns (Some ErrChannelRequired),
                               Returns (Some ErrHandlerRequired)}"
  using assms by (auto simp add: On_def)

theorem On_invalid_twice_witness:
  "On demo_env (demo_lc\<lparr>Channel := ''''\<rparr>)
       (snd (On demo_env (demo_lc\<lparr>Channel := ''''\<rparr>) demo_state))
     = On demo_env (demo_lc\<lparr>Channel := ''''\<rparr>) demo_state \<and>
   On demo_env (demo_lc\<lparr>Channel := ''''\<rparr>) demo_state = (Returns (Some ErrChannelRequired), demo_state)"
proof -
  have invalid: "Topic (demo_lc\<lparr>Channel := ''''\<rparr>) = [] \<or> Channel (demo_lc\<lparr>Channel := ''''\<rparr>) = []
                   \<or> HandlerFunc (demo_lc\<lparr>Channel := ''''\<rparr>) = None"
    by simp
  have first: "fst (On demo_env (demo_lc\<lparr>Channel := ''''\<rparr>) demo_state) = Returns (Some ErrChannelRequired)"
    by (simp add: On_def demo_lc_def)
  from On_invalid_twice [OF invalid, of demo_env demo_state] first show ?thesis
    by (simp add: prod_eq_iff)
qed

text \<open>
  C6. With autoCreateTopic set and a valid configuration, On first runs the
  provisioner, on the first discovery address of the defaulted list and on nothing
  else. If the provisioner returns an error, On returns that error in the state the
  provisioner left, and no consumer has been created, registered or connected. If it
  succeeds, On goes on to the subscription from that state, so every transport call
  comes after the provisioning. A configuration that fails validation makes no
  transport call either.
\<close>

theorem On_provisions_first:
  assumes "AutoCreateTopic lc"
  shows "(Topic lc \<noteq> [] \<and> Channel lc \<noteq> [] \<and> HandlerFunc lc \<noteq> None \<longrightarrow>
            (let lc' = lc\<lparr>Lookup := (if Lookup lc = [] then [''localhost:4161''] else Lookup lc),
                           HandlerConcurrency := (if HandlerConcurrency lc = 0 then 1 else HandlerConcurrency lc)\<rparr>;
                 first = (case Lookup lc of [] \<Rightarrow> ''localhost:4161'' | a # _ \<Rightarrow> a);
                 provisioned = ensureTopic env first (Topic lc) s
             in case fst provisioned of
                  Some err \<Rightarrow> On env lc s = (Returns (Some err), snd provisioned) \<and>
                              filter is_transport_call (calls (snd (On env lc s)))
                                = filter is_transport_call (calls s)
                | None \<Rightarrow> On env lc s = On_subscribe env lc' (snd provisioned))) \<and>
         (Topic lc = [] \<or> Channel lc = [] \<or> HandlerFunc lc = None \<longrightarrow>
            filter is_transport_call (calls (snd (On env lc s))) = filter is_transport_call (calls s))"
proof (intro conjI impI)
  assume "Topic lc = [] \<or> Channel lc = [] \<or> HandlerFunc lc = None"
  then show "filter is_transport_call (calls (snd (On env lc s))) = filter is_transport_call (calls s)"
    by (auto simp add: On_def)
next
  assume valid: "Topic lc \<noteq> [] \<and> Channel lc \<noteq> [] \<and> HandlerFunc lc \<noteq> None"
  define lc' where "lc' = lc\<lparr>Lookup := (if Lookup lc = [] then [''localhost:4161''] else Lookup lc),
      HandlerConcurrency := (if HandlerConcurrency lc = 0 then 1 else HandlerConcurrency lc)\<rparr>"
  define first where "first = (case Lookup lc of [] \<Rightarrow> ''localhost:4161'' | a # _ \<Rightarrow> a)"
  define provisioned where "provisioned = ensureTopic env first (Topic lc) s"
  have on: "On env lc s = On_configured env lc' s"
    using valid by (auto simp add: On_def Let_def lc'_def)
  have lk: "\<exists>rest. Lookup lc' = first # rest"
    by (cases "Lookup lc") (simp_all add: lc'_def first_def)
  have auto': "AutoCreateTopic lc'" and topic: "Topic lc' = Topic lc"
    using assms by (simp_all add: lc'_def)
  have conf: "On_configured env lc' s =
      (case fst provisioned of Some err \<Rightarrow> (Returns (Some err), snd provisioned)
       | None \<Rightarrow> On_subscribe env lc' (snd provisioned))"
    using lk auto' topic
    by (auto simp add: On_configured_def provisioned_def split: prod.splits option.splits)
  have tr: "filter is_transport_call (calls (snd provisioned)) = filter is_transport_call (calls s)"
    unfolding provisioned_def by (rule ensureTopic_transport)
  have "case fst provisioned of
          Some err \<Rightarrow> On env lc s = (Returns (Some err), snd provisioned) \<and>
                      filter is_transport_call (calls (snd (On env lc s)))
                        = filter is_transport_call (calls s)
        | None \<Rightarrow> On env lc s = On_subscribe env lc' (snd provisioned)"
    using on conf tr by (simp split: option.splits)
  then show "let lc' = lc\<lparr>Lookup := (if Lookup lc = [] then [''localhost:4161''] else Lookup lc),
                           HandlerConcurrency := (if HandlerConcurrency lc = 0 then 1 else HandlerConcurrency lc)\<rparr>;
                 first = (case Lookup lc of [] \<Rightarrow> ''localhost:4161'' | a # _ \<Rightarrow> a);
                 provisioned = ensureTopic env first (Topic lc) s
             in case fst provisioned of
                  Some err \<Rightarrow> On env lc s = (Returns (Some err), snd provisioned) \<and>
                              filter is_transport_call (calls (snd (On env lc s)))
                                = filter is_transport_call (calls s)
                | None \<Rightarrow> On env lc s = On_subscribe env lc' (snd provisioned)"
    unfolding Let_def lc'_def first_def provisioned_def .
qed

theorem On_provisions_first_witness:
  "AutoCreateTopic (demo_lc\<lparr>Lookup := [''disc:4161'', ''other:4161'']\<rparr>) \<and>
   On (demo_env_get 500 ''500 Internal Server Error'' '''')
       (demo_lc\<lparr>Lookup := [''disc:4161'', ''other:4161'']\<rparr>) demo_state
     = (Returns (Some (ErrorString ''unexpected status code: 500'')),
        \<lparr>calls = [HttpGet ''http://disc:4161/lookup?topic=orders''], world = 1\<rparr>) \<and>
   On demo_env (demo_lc\<lparr>Lookup := [''disc:4161'', ''other:4161'']\<rparr>) demo_state
     = On_subscribe demo_env (demo_lc\<lparr>Lookup := [''disc:4161'', ''other:4161'']\<rparr>)
         \<lparr>calls = [HttpGet ''http://disc:4161/lookup?topic=orders'',
                   HttpGet ''http://disc:4161/nodes'',
                   HttpPost ''http://n1:4150/topic/create?topic=orders'' ''''], world = 3\<rparr>"
proof -
  let ?lc = "demo_lc\<lparr>Lookup := [''disc:4161'', ''other:4161'']\<rparr>"
  have auto: "AutoCreateTopic ?lc"
    by (simp add: demo_lc_def)
  have valid: "Topic ?lc \<noteq> [] \<and> Channel ?lc \<noteq> [] \<and> HandlerFunc ?lc \<noteq> None"
    by (simp add: demo_lc_def)
  have same: "?lc\<lparr>Lookup := (if Lookup ?lc = [] then [''localhost:4161''] else Lookup ?lc),
                  HandlerConcurrency := (if HandlerConcurrency ?lc = 0 then 1 else HandlerConcurrency ?lc)\<rparr> = ?lc"
    by (simp add: demo_lc_def)
  have first: "(case Lookup ?lc of [] \<Rightarrow> ''localhost:4161'' | a # _ \<Rightarrow> a) = ''disc:4161''"
    and topic: "Topic ?lc = ''orders''"
    by (simp_all add: demo_lc_def)
  have fails: "ensureTopic (demo_env_get 500 ''500 Internal Server Error'' '''') ''disc:4161'' ''orders'' demo_state
                 = (Some (ErrorString ''unexpected status code: 500''),
                    \<lparr>calls = [HttpGet ''http://disc:4161/lookup?topic=orders''], world = 1\<rparr>)"
    by (simp add: ensureTopic_def checkTopic_def StatusOK_def StatusNotFound_def demo_defs)
  have works: "ensureTopic demo_env ''disc:4161'' ''orders'' demo_state
                 = (None,
                    \<lparr>calls = [HttpGet ''http://disc:4161/lookup?topic=orders'',
                              HttpGet ''http://disc:4161/nodes'',
                              HttpPost ''http://n1:4150/topic/create?topic=orders'' ''''], world = 3\<rparr>)"
    by (simp add: ensureTopic_def checkTopic_def createTopic_def StatusOK_def StatusNotFound_def demo_defs)
  have one: "On (demo_env_get 500 ''500 Internal Server Error'' '''') ?lc demo_state
     = (Returns (Some (ErrorString ''unexpected status code: 500'')),
        \<lparr>calls = [HttpGet ''http://disc:4161/lookup?topic=orders''], world = 1\<rparr>)"
    using On_provisions_first [OF auto, of "demo_env_get 500 ''500 Internal Server Error'' ''''" demo_state,
            THEN conjunct1, rule_format, OF valid]
    unfolding Let_def same first topic fails
    by simp
  have two: "On demo_env ?lc demo_state
     = On_subscribe demo_env ?lc
         \<lparr>calls = [HttpGet ''http://disc:4161/lookup?topic=orders'',
                   HttpGet ''http://disc:4161/nodes'',
                   HttpPost ''http://n1:4150/topic/create?topic=orders'' ''''], world = 3\<rparr>"
    using On_provisions_first [OF auto, of demo_env demo_state, THEN conjunct1, rule_format, OF valid]
    unfolding Let_def same first topic works
    by simp
  from auto one two show ?thesis
    by blast
qed


end
